theory Spec2Isabelle
  imports Main "HOL-Library.AList"
begin

section \<open>The chat services of \<^verbatim>\<open>src/api/app/services/chat.py\<close>\<close>

text \<open>
  The module holds six service functions over one MongoDB collection
  (\<^verbatim>\<open>chatsCollection\<close>) and one call to an AI provider (\<^verbatim>\<open>get_ai_response\<close>).
  Each function is embedded as a function from the state before the call to a result and
  the state after it. A raised exception is the \<open>Inl\<close> branch of the result.
  The state holds the documents of the collection and a log of the calls made to the two
  collaborators, so that "no storage access" is a statement about the log.
  The collection is shared with other requests. A service that reaches the store once
  sees them only through the state it starts from. \<^verbatim>\<open>post_message_by_chat_id\<close> reaches
  the store twice (lines 75 and 102), so it is embedded twice: run among other requests,
  with what they do to the collection between the two lines as an argument, and run alone.
\<close>

subsection \<open>Data model\<close>

text \<open>
  \<^verbatim>\<open>models/chat.py\<close> is imported by the module; its classes are used there only through
  their constructors, their fields and \<^verbatim>\<open>model_dump()\<close>.
\<close>

datatype MessageType = USER | AI

record Message =
  content :: string
  msg_type :: MessageType

record Code =
  html :: string
  css :: string
  js :: string

record Prompt =
  input :: string

text \<open>
  The dictionary returned by \<^verbatim>\<open>get_ai_response\<close>, read at the keys
  \<^verbatim>\<open>'explanation'\<close>, \<^verbatim>\<open>'html'\<close>, \<^verbatim>\<open>'css'\<close> and \<^verbatim>\<open>'js'\<close> (lines 72-73).
\<close>

record ai_response =
  ai_explanation :: string
  ai_html :: string
  ai_css :: string
  ai_js :: string

text \<open>
  A stored document without its \<^verbatim>\<open>_id\<close>. A MongoDB document has no fixed schema: a field
  can be absent, which is \<open>None\<close> here (\<^verbatim>\<open>chat.get("name")\<close> on line 95 reads an absent
  name as Python's \<^verbatim>\<open>None\<close>). The embedded \<^verbatim>\<open>code\<close> document is kept as its three
  paths \<^verbatim>\<open>code.html\<close>, \<^verbatim>\<open>code.css\<close>, \<^verbatim>\<open>code.js\<close>, the paths the module writes.
  An absent \<^verbatim>\<open>messages\<close> array and an empty one behave alike under \<^verbatim>\<open>$push\<close>, so
  the array is a plain list.
\<close>

record chat_doc =
  userId :: "string option"
  name :: "string option"
  messages :: "Message list"
  code_html :: "string option"
  code_css :: "string option"
  code_js :: "string option"

definition empty_doc :: chat_doc where
  "empty_doc = \<lparr>userId = None, name = None, messages = [],
     code_html = None, code_css = None, code_js = None\<rparr>"

text \<open>
  Exceptions. \<^verbatim>\<open>HTTPException(status_code, detail)\<close> is what the module raises itself;
  \<open>ProviderError\<close> stands for any exception that escapes \<^verbatim>\<open>get_ai_response\<close>
  (line 70 has no \<^verbatim>\<open>try\<close>, so it propagates to the caller).
\<close>

datatype error = HTTPException nat string | ProviderError string

subsection \<open>Python's \<^verbatim>\<open>str.strip()\<close>\<close>

text \<open>
  A \<open>char\<close> stands for a code point below 256. \<^verbatim>\<open>str.strip()\<close> without argument
  removes leading and trailing whitespace; on this range the whitespace characters of
  Python's \<^verbatim>\<open>str\<close> are 9 to 13, 28 to 32, 133 and 160.
\<close>

definition isspace :: "char \<Rightarrow> bool" where
  "isspace c = (let n = (of_char c :: nat) in
     (9 \<le> n \<and> n \<le> 13) \<or> (28 \<le> n \<and> n \<le> 32) \<or> n = 133 \<or> n = 160)"

definition strip :: "string \<Rightarrow> string" where
  "strip s = rev (dropWhile isspace (rev (dropWhile isspace s)))"

text \<open>The truth value of a Python string: the empty string is false.\<close>

definition truthy :: "string \<Rightarrow> bool" where
  "truthy s = (s \<noteq> [])"

subsection \<open>The collaborators\<close>

text \<open>
  \<^verbatim>\<open>bson.ObjectId\<close> is a library class. Its two uses, \<^verbatim>\<open>ObjectId.is_valid(s)\<close> and the
  conversion \<^verbatim>\<open>ObjectId(s)\<close>, and the identifier that \<^verbatim>\<open>insert_one\<close> generates for a
  new document, are parameters of the model: \<open>'k\<close> is the type of identifiers.
\<close>

record 'k env =
  is_valid :: "string \<Rightarrow> bool"
  ObjectId :: "string \<Rightarrow> 'k"
  gen_id :: "('k \<times> chat_doc) list \<Rightarrow> 'k"

datatype 'k call =
    Find string
  | FindOne 'k
  | InsertOne chat_doc
  | UpdateOne 'k
  | DeleteOne 'k
  | GetAiResponse string string

record 'k world =
  docs :: "('k \<times> chat_doc) list"
  calls :: "'k call list"

definition logged :: "'k call \<Rightarrow> 'k world \<Rightarrow> 'k world" where
  "logged c w = w\<lparr>calls := calls w @ [c]\<rparr>"

text \<open>
  An update document as the module builds it: an optional \<^verbatim>\<open>$push\<close> of messages
  (\<^verbatim>\<open>{"messages": {"$each": [...]}}\<close>) and an optional \<^verbatim>\<open>$set\<close> dictionary from field
  paths to strings. The four paths the module sets are an enumeration.
\<close>

datatype field = F_name | F_code_html | F_code_css | F_code_js

record update_spec =
  push_each :: "Message list option"
  set_dict :: "(field \<times> string) list option"

fun set_field :: "field \<times> string \<Rightarrow> chat_doc \<Rightarrow> chat_doc" where
  "set_field (F_name, v) d = d\<lparr>name := Some v\<rparr>"
| "set_field (F_code_html, v) d = d\<lparr>code_html := Some v\<rparr>"
| "set_field (F_code_css, v) d = d\<lparr>code_css := Some v\<rparr>"
| "set_field (F_code_js, v) d = d\<lparr>code_js := Some v\<rparr>"

definition apply_update :: "update_spec \<Rightarrow> chat_doc \<Rightarrow> chat_doc" where
  "apply_update u d =
     (let d1 = (case push_each u of None \<Rightarrow> d
                | Some ms \<Rightarrow> d\<lparr>messages := messages d @ ms\<rparr>)
      in case set_dict u of None \<Rightarrow> d1 | Some kvs \<Rightarrow> fold set_field kvs d1)"

text \<open>
  The methods of the collection. \<^verbatim>\<open>find\<close> returns a cursor object, never Python's
  \<^verbatim>\<open>None\<close>: the result is always \<open>Some\<close> of the matching documents, in stored order.
  \<^verbatim>\<open>find_one\<close> returns the first document with the identifier, or \<^verbatim>\<open>None\<close>.
  \<^verbatim>\<open>insert_one\<close> stores the document under a generated identifier and returns it.
  \<^verbatim>\<open>update_one\<close> changes the first matching document and returns \<^verbatim>\<open>matched_count\<close>;
  with \<^verbatim>\<open>upsert=True\<close> and no match it stores the update applied to an empty document,
  and \<^verbatim>\<open>matched_count\<close> is still 0. \<^verbatim>\<open>delete_one\<close> removes the first matching document
  and returns \<^verbatim>\<open>deleted_count\<close>.
\<close>

definition find_coll ::
  "string \<Rightarrow> 'k world \<Rightarrow> ('k \<times> chat_doc) list option \<times> 'k world" where
  "find_coll user_id w =
     (Some (filter (\<lambda>p. userId (snd p) = Some user_id) (docs w)), logged (Find user_id) w)"

definition find_one :: "'k \<Rightarrow> 'k world \<Rightarrow> chat_doc option \<times> 'k world" where
  "find_one k w = (map_of (docs w) k, logged (FindOne k) w)"

definition insert_one :: "'k env \<Rightarrow> chat_doc \<Rightarrow> 'k world \<Rightarrow> 'k \<times> 'k world" where
  "insert_one e d w =
     (let k = gen_id e (docs w)
      in (k, logged (InsertOne d) (w\<lparr>docs := docs w @ [(k, d)]\<rparr>)))"

definition update_one ::
  "'k \<Rightarrow> update_spec \<Rightarrow> bool \<Rightarrow> 'k world \<Rightarrow> nat \<times> 'k world" where
  "update_one k u upsert w =
     (case map_of (docs w) k of
        Some d \<Rightarrow>
          (1, logged (UpdateOne k) (w\<lparr>docs := AList.update k (apply_update u d) (docs w)\<rparr>))
      | None \<Rightarrow>
          if upsert
          then (0, logged (UpdateOne k) (w\<lparr>docs := docs w @ [(k, apply_update u empty_doc)]\<rparr>))
          else (0, logged (UpdateOne k) w))"

fun delete_first :: "'k \<Rightarrow> ('k \<times> 'v) list \<Rightarrow> ('k \<times> 'v) list" where
  "delete_first k [] = []"
| "delete_first k (p # ps) = (if fst p = k then ps else p # delete_first k ps)"

definition delete_one :: "'k \<Rightarrow> 'k world \<Rightarrow> nat \<times> 'k world" where
  "delete_one k w =
     (case map_of (docs w) k of
        Some d \<Rightarrow> (1, logged (DeleteOne k) (w\<lparr>docs := delete_first k (docs w)\<rparr>))
      | None \<Rightarrow> (0, logged (DeleteOne k) w))"

subsection \<open>The schema functions and the Chat model\<close>

record 'k chat_out =
  out_id :: 'k
  out_userId :: "string option"
  out_name :: "string option"
  out_messages :: "Message list"
  out_code_html :: "string option"
  out_code_css :: "string option"
  out_code_js :: "string option"

text \<open>
  Modelled from the spec: \<^verbatim>\<open>schemas/chat.py\<close> (\<^verbatim>\<open>basic_chat\<close>, \<^verbatim>\<open>detailed_chat\<close>,
  \<^verbatim>\<open>all_chats\<close>) is not among the sources. The spec describes a chat summary as
  "(id, userId, name, empty messages/code)", the detail as "all fields including messages
  and code", and the list as an "ordered collection of chat summaries".
\<close>

definition basic_chat :: "'k \<times> chat_doc \<Rightarrow> 'k chat_out" where
  "basic_chat p =
     \<lparr>out_id = fst p, out_userId = userId (snd p), out_name = name (snd p),
      out_messages = messages (snd p), out_code_html = code_html (snd p),
      out_code_css = code_css (snd p), out_code_js = code_js (snd p)\<rparr>"

definition detailed_chat :: "'k \<times> chat_doc \<Rightarrow> 'k chat_out" where
  "detailed_chat p = basic_chat p"

definition all_chats :: "('k \<times> chat_doc) list \<Rightarrow> 'k chat_out list" where
  "all_chats cursor = map basic_chat cursor"

text \<open>
  Modelled from the spec: the class \<^verbatim>\<open>Chat\<close> of \<^verbatim>\<open>models/chat.py\<close> is not among the
  sources. \<^verbatim>\<open>Chat(userId=user_id, name=name).model_dump()\<close> is the document with the two
  given fields and, following the spec ("empty messages/code"; "css/js remain at prior
  (empty) value"), an empty message list and three empty code strings.
\<close>

definition Chat_model_dump :: "string \<Rightarrow> string \<Rightarrow> chat_doc" where
  "Chat_model_dump user_id nm =
     \<lparr>userId = Some user_id, name = Some nm, messages = [],
      code_html = Some [], code_css = Some [], code_js = Some []\<rparr>"

subsection \<open>The six services\<close>

text \<open>Lines 13-18.\<close>

definition get_chats_by_user_id ::
  "string \<Rightarrow> 'k world \<Rightarrow> (error + 'k chat_out list) \<times> 'k world" where
  "get_chats_by_user_id user_id w =
     (let (resp, w1) = find_coll user_id w
      in case resp of
           None \<Rightarrow> (Inl (HTTPException 404 ''No chats found for this user''), w1)
         | Some cursor \<Rightarrow> (Inr (all_chats cursor), w1))"

text \<open>Lines 20-24. The optional argument is \<open>None\<close> when the caller omits \<^verbatim>\<open>name\<close>.\<close>

definition create_chat_by_user_id ::
  "'k env \<Rightarrow> string \<Rightarrow> string option \<Rightarrow> 'k world \<Rightarrow> (error + 'k chat_out) \<times> 'k world" where
  "create_chat_by_user_id e user_id name_arg w =
     (let nm = (case name_arg of None \<Rightarrow> ''New Chat'' | Some n \<Rightarrow> n);
          chat = Chat_model_dump user_id nm;
          (inserted_id, w1) = insert_one e chat w
      in (Inr (basic_chat (inserted_id, chat)), w1))"

text \<open>Lines 26-36.\<close>

definition rename_chat_by_id ::
  "'k env \<Rightarrow> string \<Rightarrow> string \<Rightarrow> 'k world \<Rightarrow> (error + string) \<times> 'k world" where
  "rename_chat_by_id e chat_id nm w =
     (if \<not> is_valid e chat_id then (Inl (HTTPException 400 ''Invalid chat ID''), w)
      else
        let (matched_count, w1) =
              update_one (ObjectId e chat_id)
                \<lparr>push_each = None, set_dict = Some [(F_name, nm)]\<rparr> False w
        in if matched_count = 0 then (Inl (HTTPException 404 ''Chat not found''), w1)
           else (Inr ''Chat renamed successfully.'', w1))"

text \<open>Lines 38-45.\<close>

definition get_chat_by_id ::
  "'k env \<Rightarrow> string \<Rightarrow> 'k world \<Rightarrow> (error + 'k chat_out) \<times> 'k world" where
  "get_chat_by_id e chat_id w =
     (if \<not> is_valid e chat_id then (Inl (HTTPException 400 ''Invalid chat ID''), w)
      else
        let (resp, w1) = find_one (ObjectId e chat_id) w
        in case resp of
             None \<Rightarrow> (Inl (HTTPException 404 ''Chat not found''), w1)
           | Some d \<Rightarrow> (Inr (detailed_chat (ObjectId e chat_id, d)), w1))"

text \<open>Lines 47-54.\<close>

definition delete_chat_by_id ::
  "'k env \<Rightarrow> string \<Rightarrow> 'k world \<Rightarrow> (error + string) \<times> 'k world" where
  "delete_chat_by_id e chat_id w =
     (if \<not> is_valid e chat_id then (Inl (HTTPException 400 ''Invalid chat ID''), w)
      else
        let (deleted_count, w1) = delete_one (ObjectId e chat_id) w
        in if deleted_count = 0 then (Inl (HTTPException 404 ''Chat not found''), w1)
           else (Inr ''Chat deleted successfully.'', w1))"

text \<open>
  Lines 79-100: the update document of \<^verbatim>\<open>post_message_by_chat_id\<close>. An assignment
  \<^verbatim>\<open>d[k] = v\<close> to a dictionary is \<open>AList.update k v d\<close>.
\<close>

definition build_update ::
  "Message \<Rightarrow> Message \<Rightarrow> Code \<Rightarrow> chat_doc \<Rightarrow> Prompt \<Rightarrow> update_spec" where
  "build_update user_message ai_message code chat prompt =
     (let s0 = [];
          s1 = (if truthy (strip (html code)) then AList.update F_code_html (html code) s0 else s0);
          s2 = (if truthy (strip (css code)) then AList.update F_code_css (css code) s1 else s1);
          s3 = (if truthy (strip (js code)) then AList.update F_code_js (js code) s2 else s2);
          s4 = (if name chat = Some ''New Chat'' then AList.update F_name (input prompt) s3 else s3)
      in \<lparr>push_each = Some [user_message, ai_message],
          set_dict = (if s4 = [] then None else Some s4)\<rparr>)"

record post_result =
  res_name :: "string option"
  res_message :: Message
  res_code :: Code

text \<open>
  Lines 56-115, run alone: the state that \<^verbatim>\<open>find_one\<close> leaves on line 75 is the state
  that \<^verbatim>\<open>update_one\<close> finds on line 102. The AI provider is the argument
  \<open>get_ai_response\<close>.
\<close>

definition post_message_by_chat_id ::
  "'k env \<Rightarrow> (string \<Rightarrow> string \<Rightarrow> error + ai_response) \<Rightarrow> Prompt \<Rightarrow> string \<Rightarrow>
     'k world \<Rightarrow> (error + post_result) \<times> 'k world" where
  "post_message_by_chat_id e get_ai_response prompt chat_id w =
     (if \<not> is_valid e chat_id then (Inl (HTTPException 400 ''Invalid chat ID''), w)
      else
        let w1 = logged (GetAiResponse (input prompt) chat_id) w
        in case get_ai_response (input prompt) chat_id of
             Inl exn \<Rightarrow> (Inl exn, w1)
           | Inr response \<Rightarrow>
               let user_message = \<lparr>content = input prompt, msg_type = USER\<rparr>;
                   ai_message = \<lparr>content = ai_explanation response, msg_type = AI\<rparr>;
                   code = \<lparr>html = ai_html response, css = ai_css response, js = ai_js response\<rparr>;
                   (chat_opt, w2) = find_one (ObjectId e chat_id) w1
               in (case chat_opt of
                    None \<Rightarrow> (Inl (HTTPException 404 ''Chat not found''), w2)
                  | Some chat \<Rightarrow>
                      let update_data = build_update user_message ai_message code chat prompt;
                          (matched_count, w3) =
                            update_one (ObjectId e chat_id) update_data True w2;
                          set_or_empty = (case set_dict update_data of None \<Rightarrow> [] | Some s \<Rightarrow> s);
                          returned_name = (case map_of set_or_empty F_name of
                                             Some n \<Rightarrow> Some n
                                           | None \<Rightarrow> name chat)
                      in if matched_count = 0
                         then (Inl (HTTPException 404 ''Chat not found''), w3)
                         else (Inr \<lparr>res_name = returned_name,
                                    res_message = ai_message,
                                    res_code = code\<rparr>, w3)))"

text \<open>
  Lines 56-115, run among other requests. The body is the same; \<open>others\<close> is what the
  other requests do to the collection after the lookup of line 75 has returned and before
  the update of line 102 is applied. Before line 75 the body has not reached the store, so
  what happens earlier is part of the state the call starts from.
\<close>

definition post_message_by_chat_id_among ::
  "'k env \<Rightarrow> ('k world \<Rightarrow> 'k world) \<Rightarrow> (string \<Rightarrow> string \<Rightarrow> error + ai_response) \<Rightarrow>
     Prompt \<Rightarrow> string \<Rightarrow> 'k world \<Rightarrow> (error + post_result) \<times> 'k world" where
  "post_message_by_chat_id_among e others get_ai_response prompt chat_id w =
     (if \<not> is_valid e chat_id then (Inl (HTTPException 400 ''Invalid chat ID''), w)
      else
        let w1 = logged (GetAiResponse (input prompt) chat_id) w
        in case get_ai_response (input prompt) chat_id of
             Inl exn \<Rightarrow> (Inl exn, w1)
           | Inr response \<Rightarrow>
               let user_message = \<lparr>content = input prompt, msg_type = USER\<rparr>;
                   ai_message = \<lparr>content = ai_explanation response, msg_type = AI\<rparr>;
                   code = \<lparr>html = ai_html response, css = ai_css response, js = ai_js response\<rparr>;
                   (chat_opt, w2) = find_one (ObjectId e chat_id) w1
               in (case chat_opt of
                    None \<Rightarrow> (Inl (HTTPException 404 ''Chat not found''), w2)
                  | Some chat \<Rightarrow>
                      let update_data = build_update user_message ai_message code chat prompt;
                          (matched_count, w3) =
                            update_one (ObjectId e chat_id) update_data True (others w2);
                          set_or_empty = (case set_dict update_data of None \<Rightarrow> [] | Some s \<Rightarrow> s);
                          returned_name = (case map_of set_or_empty F_name of
                                             Some n \<Rightarrow> Some n
                                           | None \<Rightarrow> name chat)
                      in if matched_count = 0
                         then (Inl (HTTPException 404 ''Chat not found''), w3)
                         else (Inr \<lparr>res_name = returned_name,
                                    res_message = ai_message,
                                    res_code = code\<rparr>, w3)))"

subsection \<open>A concrete instance\<close>

text \<open>
  An instance of the parameters, used to run the services on concrete inputs: identifiers
  are strings of 24 hexadecimal digits, \<^verbatim>\<open>ObjectId(s)\<close> keeps the string, and the
  generator numbers the documents. The provider of the instance returns a button and
  leaves the style sheet and the script blank.
\<close>

definition hexdigit :: "char \<Rightarrow> bool" where
  "hexdigit c = (c \<in> set ''0123456789abcdefABCDEF'')"

definition demo_gen_id :: "(string \<times> chat_doc) list \<Rightarrow> string" where
  "demo_gen_id ds = replicate (24 - length ds) (CHR ''0'') @ replicate (min 24 (length ds)) (CHR ''1'')"

definition demo_env :: "string env" where
  "demo_env = \<lparr>is_valid = (\<lambda>s. length s = 24 \<and> list_all hexdigit s),
                ObjectId = (\<lambda>s. s),
                gen_id = demo_gen_id\<rparr>"

definition demo_id :: string where
  "demo_id = ''000000000000000000000000''"

definition other_id :: string where
  "other_id = ''00000000000000000000000a''"

definition demo_response :: ai_response where
  "demo_response = \<lparr>ai_explanation = ''Here'', ai_html = ''<button>'', ai_css = [], ai_js = ''  ''\<rparr>"

definition demo_ai :: "string \<Rightarrow> string \<Rightarrow> error + ai_response" where
  "demo_ai prompt_text session = Inr demo_response"

definition failing_ai :: "string \<Rightarrow> string \<Rightarrow> error + ai_response" where
  "failing_ai prompt_text session = Inl (ProviderError ''quota exceeded'')"

definition demo_chat :: chat_doc where
  "demo_chat = \<lparr>userId = Some ''u1'', name = Some ''My site'',
       messages = [\<lparr>content = ''hi'', msg_type = USER\<rparr>, \<lparr>content = ''Hello'', msg_type = AI\<rparr>],
       code_html = Some ''<p>old</p>'', code_css = Some ''p { color: red }'', code_js = Some []\<rparr>"

definition demo_world :: "string world" where
  "demo_world = \<lparr>docs = [(demo_id, demo_chat)], calls = []\<rparr>"

definition empty_world :: "string world" where
  "empty_world = \<lparr>docs = [], calls = []\<rparr>"

text \<open>
  Another request, a call of \<^verbatim>\<open>delete_chat_by_id\<close> for the same chat, as it changes the
  state.
\<close>

definition racing_delete :: "string world \<Rightarrow> string world" where
  "racing_delete w = snd (delete_chat_by_id demo_env demo_id w)"

text \<open>
  A run from the empty collection: a chat is created without a name, then the prompts
  \<^verbatim>\<open>New Chat\<close> and \<^verbatim>\<open>hello\<close> are posted to it.
\<close>

definition run_created :: "string world" where
  "run_created = snd (create_chat_by_user_id demo_env ''u1'' None empty_world)"

definition run_first_post :: "string world" where
  "run_first_post =
     snd (post_message_by_chat_id demo_env demo_ai \<lparr>input = ''New Chat''\<rparr> demo_id run_created)"

definition run_second_post :: "string world" where
  "run_second_post =
     snd (post_message_by_chat_id demo_env demo_ai \<lparr>input = ''hello''\<rparr> demo_id run_first_post)"

subsection \<open>What one call of \<^verbatim>\<open>post_message_by_chat_id\<close> does\<close>

text \<open>
  The update document of lines 79-100, applied to the chat it was built from, and the
  name read back from it on line 112.
\<close>

lemma apply_build_update:
  "apply_update (build_update um am c d p) d =
     d\<lparr>messages := messages d @ [um, am],
       code_html := (if truthy (strip (html c)) then Some (html c) else code_html d),
       code_css := (if truthy (strip (css c)) then Some (css c) else code_css d),
       code_js := (if truthy (strip (js c)) then Some (js c) else code_js d),
       name := (if name d = Some ''New Chat'' then Some (input p) else name d)\<rparr>"
  by (simp add: apply_update_def build_update_def Let_def)

lemma build_update_name:
  "map_of (case set_dict (build_update um am c d p) of None \<Rightarrow> [] | Some s \<Rightarrow> s) F_name =
     (if name d = Some ''New Chat'' then Some (input p) else None)"
  by (simp add: build_update_def Let_def)

lemma post_message_invalid:
  "\<not> is_valid e cid \<Longrightarrow>
   post_message_by_chat_id e g p cid w = (Inl (HTTPException 400 ''Invalid chat ID''), w)"
  by (simp add: post_message_by_chat_id_def)

lemma post_message_provider_fails:
  "is_valid e cid \<Longrightarrow> g (input p) cid = Inl x \<Longrightarrow>
   post_message_by_chat_id e g p cid w = (Inl x, logged (GetAiResponse (input p) cid) w)"
  by (simp add: post_message_by_chat_id_def Let_def)

lemma post_message_not_found:
  "is_valid e cid \<Longrightarrow> g (input p) cid = Inr r \<Longrightarrow> map_of (docs w) (ObjectId e cid) = None \<Longrightarrow>
   post_message_by_chat_id e g p cid w =
     (Inl (HTTPException 404 ''Chat not found''),
      w\<lparr>calls := calls w @ [GetAiResponse (input p) cid, FindOne (ObjectId e cid)]\<rparr>)"
  by (simp add: post_message_by_chat_id_def Let_def find_one_def logged_def)

lemma post_message_found:
  assumes "is_valid e cid" and "g (input p) cid = Inr r"
    and "map_of (docs w) (ObjectId e cid) = Some d"
  shows "post_message_by_chat_id e g p cid w =
     (Inr \<lparr>res_name = (if name d = Some ''New Chat'' then Some (input p) else name d),
           res_message = \<lparr>content = ai_explanation r, msg_type = AI\<rparr>,
           res_code = \<lparr>html = ai_html r, css = ai_css r, js = ai_js r\<rparr>\<rparr>,
      w\<lparr>docs := AList.update (ObjectId e cid)
                 (d\<lparr>messages := messages d @
                        [\<lparr>content = input p, msg_type = USER\<rparr>,
                         \<lparr>content = ai_explanation r, msg_type = AI\<rparr>],
                    code_html := (if truthy (strip (ai_html r)) then Some (ai_html r) else code_html d),
                    code_css := (if truthy (strip (ai_css r)) then Some (ai_css r) else code_css d),
                    code_js := (if truthy (strip (ai_js r)) then Some (ai_js r) else code_js d),
                    name := (if name d = Some ''New Chat'' then Some (input p) else name d)\<rparr>)
                 (docs w),
        calls := calls w @ [GetAiResponse (input p) cid, FindOne (ObjectId e cid),
                            UpdateOne (ObjectId e cid)]\<rparr>)"
  using assms
  by (simp add: post_message_by_chat_id_def Let_def find_one_def update_one_def logged_def
      apply_build_update build_update_name)

lemma post_message_success_inv:
  assumes "post_message_by_chat_id e g p cid w = (Inr res, w')"
  shows "is_valid e cid \<and> (\<exists>r d. g (input p) cid = Inr r \<and> map_of (docs w) (ObjectId e cid) = Some d)"
proof -
  have v: "is_valid e cid"
    using assms post_message_invalid [of e cid g p w] by (cases "is_valid e cid") auto
  obtain r where r: "g (input p) cid = Inr r"
    using assms v post_message_provider_fails [of e cid g p _ w]
    by (cases "g (input p) cid") auto
  obtain d where "map_of (docs w) (ObjectId e cid) = Some d"
    using assms v r post_message_not_found [of e cid g p r w]
    by (cases "map_of (docs w) (ObjectId e cid)") auto
  with v r show ?thesis by blast
qed

lemma rename_chat_invalid:
  "\<not> is_valid e cid \<Longrightarrow>
   rename_chat_by_id e cid nm w = (Inl (HTTPException 400 ''Invalid chat ID''), w)"
  by (simp add: rename_chat_by_id_def)

lemma rename_chat_not_found:
  "is_valid e cid \<Longrightarrow> map_of (docs w) (ObjectId e cid) = None \<Longrightarrow>
   rename_chat_by_id e cid nm w =
     (Inl (HTTPException 404 ''Chat not found''), w\<lparr>calls := calls w @ [UpdateOne (ObjectId e cid)]\<rparr>)"
  by (simp add: rename_chat_by_id_def update_one_def logged_def)

lemma rename_chat_found:
  "is_valid e cid \<Longrightarrow> map_of (docs w) (ObjectId e cid) = Some d \<Longrightarrow>
   rename_chat_by_id e cid nm w =
     (Inr ''Chat renamed successfully.'',
      w\<lparr>docs := AList.update (ObjectId e cid) (d\<lparr>name := Some nm\<rparr>) (docs w),
        calls := calls w @ [UpdateOne (ObjectId e cid)]\<rparr>)"
  by (simp add: rename_chat_by_id_def update_one_def logged_def apply_update_def)

lemma get_chat_invalid:
  "\<not> is_valid e cid \<Longrightarrow>
   get_chat_by_id e cid w = (Inl (HTTPException 400 ''Invalid chat ID''), w)"
  by (simp add: get_chat_by_id_def)

lemma get_chat_not_found:
  "is_valid e cid \<Longrightarrow> map_of (docs w) (ObjectId e cid) = None \<Longrightarrow>
   get_chat_by_id e cid w =
     (Inl (HTTPException 404 ''Chat not found''), w\<lparr>calls := calls w @ [FindOne (ObjectId e cid)]\<rparr>)"
  by (simp add: get_chat_by_id_def find_one_def logged_def)

lemma delete_chat_invalid:
  "\<not> is_valid e cid \<Longrightarrow>
   delete_chat_by_id e cid w = (Inl (HTTPException 400 ''Invalid chat ID''), w)"
  by (simp add: delete_chat_by_id_def)

lemma delete_chat_not_found:
  "is_valid e cid \<Longrightarrow> map_of (docs w) (ObjectId e cid) = None \<Longrightarrow>
   delete_chat_by_id e cid w =
     (Inl (HTTPException 404 ''Chat not found''), w\<lparr>calls := calls w @ [DeleteOne (ObjectId e cid)]\<rparr>)"
  by (simp add: delete_chat_by_id_def delete_one_def logged_def)

text \<open>
  What \<^verbatim>\<open>upsert=True\<close> (line 105) does when nothing matches: a document is stored and
  \<^verbatim>\<open>matched_count\<close> is 0. \<^verbatim>\<open>rename_chat_by_id\<close> calls \<^verbatim>\<open>update_one\<close> without it
  (\<open>rename_chat_not_found\<close>: the collection is unchanged).
\<close>

lemma update_one_upsert_no_match:
  "map_of (docs w) k = None \<Longrightarrow>
   update_one k u True w =
     (0, w\<lparr>docs := docs w @ [(k, apply_update u empty_doc)], calls := calls w @ [UpdateOne k]\<rparr>)"
  by (simp add: update_one_def logged_def)

subsection \<open>Post-message alone and among other requests\<close>

text \<open>When the other requests do nothing in between, the two embeddings agree.\<close>

lemma post_message_among_nobody:
  "post_message_by_chat_id_among e (\<lambda>w. w) get_ai_response prompt chat_id w =
   post_message_by_chat_id e get_ai_response prompt chat_id w"
  by (simp add: post_message_by_chat_id_among_def post_message_by_chat_id_def)

text \<open>
  Run alone, a call either raises and leaves the collection as it was, or returns and has
  replaced the chat's document by the updated one: the lookup of line 75 has found the
  chat, so \<^verbatim>\<open>update_one\<close> matches and line 109 is not reached.
\<close>

lemma post_message_alone_all_or_nothing:
  "(\<exists>err. fst (post_message_by_chat_id e get_ai_response prompt chat_id w) = Inl err
        \<and> docs (snd (post_message_by_chat_id e get_ai_response prompt chat_id w)) = docs w)
   \<or> (\<exists>res r d. fst (post_message_by_chat_id e get_ai_response prompt chat_id w) = Inr res
        \<and> get_ai_response (input prompt) chat_id = Inr r
        \<and> map_of (docs w) (ObjectId e chat_id) = Some d
        \<and> docs (snd (post_message_by_chat_id e get_ai_response prompt chat_id w)) =
            AList.update (ObjectId e chat_id)
              (d\<lparr>messages := messages d @
                     [\<lparr>content = input prompt, msg_type = USER\<rparr>,
                      \<lparr>content = ai_explanation r, msg_type = AI\<rparr>],
                 code_html := (if strip (ai_html r) \<noteq> [] then Some (ai_html r) else code_html d),
                 code_css := (if strip (ai_css r) \<noteq> [] then Some (ai_css r) else code_css d),
                 code_js := (if strip (ai_js r) \<noteq> [] then Some (ai_js r) else code_js d),
                 name := (if name d = Some ''New Chat'' then Some (input prompt) else name d)\<rparr>)
              (docs w))"
proof (cases "is_valid e chat_id")
  case False
  then show ?thesis by (simp add: post_message_invalid)
next
  case v: True
  show ?thesis
  proof (cases "get_ai_response (input prompt) chat_id")
    case (Inl x)
    with v show ?thesis by (simp add: post_message_provider_fails logged_def)
  next
    case r: (Inr r)
    show ?thesis
    proof (cases "map_of (docs w) (ObjectId e chat_id)")
      case None
      with v r show ?thesis by (simp add: post_message_not_found)
    next
      case (Some d)
      with v r post_message_found [of e chat_id get_ai_response prompt r w d]
      show ?thesis by (simp add: truthy_def)
    qed
  qed
qed

text \<open>
  Run among other requests, with the chat found on line 75 and gone on line 102, the call
  raises the 404 of line 109 after \<^verbatim>\<open>update_one\<close> has stored the update applied to an
  empty document.
\<close>

lemma post_message_among_chat_removed:
  assumes "is_valid e chat_id" and "get_ai_response (input prompt) chat_id = Inr r"
    and "map_of (docs w) (ObjectId e chat_id) = Some d"
    and "map_of (docs (others (w\<lparr>calls := calls w @ [GetAiResponse (input prompt) chat_id,
            FindOne (ObjectId e chat_id)]\<rparr>))) (ObjectId e chat_id) = None"
  shows "fst (post_message_by_chat_id_among e others get_ai_response prompt chat_id w) =
           Inl (HTTPException 404 ''Chat not found'')
      \<and> docs (snd (post_message_by_chat_id_among e others get_ai_response prompt chat_id w)) =
           docs (others (w\<lparr>calls := calls w @ [GetAiResponse (input prompt) chat_id,
              FindOne (ObjectId e chat_id)]\<rparr>)) @
           [(ObjectId e chat_id,
             apply_update
               (build_update \<lparr>content = input prompt, msg_type = USER\<rparr>
                  \<lparr>content = ai_explanation r, msg_type = AI\<rparr>
                  \<lparr>html = ai_html r, css = ai_css r, js = ai_js r\<rparr> d prompt)
               empty_doc)]"
  using assms
  by (simp add: post_message_by_chat_id_among_def Let_def find_one_def update_one_def logged_def)

subsection \<open>The concrete instance\<close>

lemma demo_valid: "is_valid demo_env demo_id"
  by (simp add: demo_env_def demo_id_def hexdigit_def)

lemma demo_lookup: "map_of (docs demo_world) (ObjectId demo_env demo_id) = Some demo_chat"
  by (simp add: demo_env_def demo_world_def)

lemma other_valid: "is_valid demo_env other_id"
  by (simp add: demo_env_def other_id_def hexdigit_def)

lemma other_missing: "map_of (docs demo_world) (ObjectId demo_env other_id) = None"
  by (simp add: demo_env_def demo_world_def other_id_def demo_id_def)

lemma demo_gen_id_empty: "gen_id demo_env (docs empty_world) = demo_id"
  by (simp add: demo_env_def demo_gen_id_def empty_world_def demo_id_def eval_nat_numeral)

lemma demo_gen_id_one: "gen_id demo_env (docs demo_world) = ''000000000000000000000001''"
  by (simp add: demo_env_def demo_gen_id_def demo_world_def eval_nat_numeral)

text \<open>Lines 20-24 have no branch: create-chat is one equation.\<close>

lemma create_chat_eq:
  "create_chat_by_user_id e user_id name_arg w =
     (Inr \<lparr>out_id = gen_id e (docs w),
           out_userId = Some user_id,
           out_name = Some (case name_arg of None \<Rightarrow> ''New Chat'' | Some n \<Rightarrow> n),
           out_messages = [],
           out_code_html = Some [], out_code_css = Some [], out_code_js = Some []\<rparr>,
      w\<lparr>docs := docs w @
            [(gen_id e (docs w),
              \<lparr>userId = Some user_id,
               name = Some (case name_arg of None \<Rightarrow> ''New Chat'' | Some n \<Rightarrow> n),
               messages = [],
               code_html = Some [], code_css = Some [], code_js = Some []\<rparr>)],
        calls := calls w @
            [InsertOne \<lparr>userId = Some user_id,
               name = Some (case name_arg of None \<Rightarrow> ''New Chat'' | Some n \<Rightarrow> n),
               messages = [],
               code_html = Some [], code_css = Some [], code_js = Some []\<rparr>]\<rparr>)"
  by (simp add: create_chat_by_user_id_def insert_one_def logged_def Chat_model_dump_def
      basic_chat_def Let_def)

lemma map_of_snoc_fresh:
  assumes "k \<notin> fst ` set xs"
  shows "map_of (xs @ [(k, v)]) k = Some v"
proof -
  have "map_of xs k = None"
    using assms by (simp add: map_of_eq_None_iff)
  then show ?thesis
    by (simp add: map_add_def)
qed

lemma run_created_eq:
  "run_created = \<lparr>docs = [(demo_id, \<lparr>userId = Some ''u1'', name = Some ''New Chat'', messages = [],
                     code_html = Some [], code_css = Some [], code_js = Some []\<rparr>)],
                  calls = [InsertOne \<lparr>userId = Some ''u1'', name = Some ''New Chat'', messages = [],
                     code_html = Some [], code_css = Some [], code_js = Some []\<rparr>]\<rparr>"
  using demo_gen_id_empty
  by (simp add: run_created_def create_chat_eq empty_world_def)

text \<open>
  Line 15 binds the cursor that \<^verbatim>\<open>find\<close> returns; the test on line 16 compares it with
  \<^verbatim>\<open>None\<close>, which a cursor never is, so line 17 is never reached.
\<close>

lemma get_chats_never_fails:
  "get_chats_by_user_id user_id w =
     (Inr (all_chats (filter (\<lambda>p. userId (snd p) = Some user_id) (docs w))),
      w\<lparr>calls := calls w @ [Find user_id]\<rparr>)"
  by (simp add: get_chats_by_user_id_def find_coll_def logged_def)

section \<open>The claims\<close>

text \<open>
  C1. When a prompt is posted to an existing chat and the provider answers, each stored
  code field (html, css, js) becomes the provider's value exactly when that value is not
  blank after \<^verbatim>\<open>strip()\<close>; for a blank value the field keeps what was stored before.
\<close>

theorem post_message_code_fields:
  assumes "is_valid e chat_id"
    and "get_ai_response (input prompt) chat_id = Inr r"
    and "map_of (docs w) (ObjectId e chat_id) = Some d"
  shows "\<exists>d'. map_of (docs (snd (post_message_by_chat_id e get_ai_response prompt chat_id w)))
                 (ObjectId e chat_id) = Some d'
      \<and> code_html d' = (if strip (ai_html r) \<noteq> [] then Some (ai_html r) else code_html d)
      \<and> code_css d' = (if strip (ai_css r) \<noteq> [] then Some (ai_css r) else code_css d)
      \<and> code_js d' = (if strip (ai_js r) \<noteq> [] then Some (ai_js r) else code_js d)"
  using assms post_message_found [of e chat_id get_ai_response prompt r w d]
  by (simp add: update_conv truthy_def)

theorem post_message_code_fields_witness:
  "is_valid demo_env demo_id
   \<and> demo_ai (input \<lparr>input = ''build a button''\<rparr>) demo_id = Inr demo_response
   \<and> map_of (docs demo_world) (ObjectId demo_env demo_id) = Some demo_chat
   \<and> (\<exists>d'. map_of (docs (snd (post_message_by_chat_id demo_env demo_ai
                 \<lparr>input = ''build a button''\<rparr> demo_id demo_world)))
                 (ObjectId demo_env demo_id) = Some d'
      \<and> code_html d' = Some ''<button>''
      \<and> code_css d' = Some ''p { color: red }''
      \<and> code_js d' = Some [])"
proof -
  have a: "demo_ai (input \<lparr>input = ''build a button''\<rparr>) demo_id = Inr demo_response"
    by (simp add: demo_ai_def)
  have s: "strip (ai_html demo_response) \<noteq> []" "strip (ai_css demo_response) = []"
    "strip (ai_js demo_response) = []"
    by (simp_all add: demo_response_def strip_def isspace_def)
  have c: "code_css demo_chat = Some ''p { color: red }''" "code_js demo_chat = Some []"
    "ai_html demo_response = ''<button>''"
    by (simp_all add: demo_chat_def demo_response_def)
  from post_message_code_fields [of demo_env demo_id demo_ai "\<lparr>input = ''build a button''\<rparr>"
      demo_response demo_world demo_chat]
  show ?thesis using demo_valid a demo_lookup s c by simp
qed

text \<open>
  C3. When a prompt \<open>P\<close> is posted to an existing chat and the provider answers, the stored
  message list afterwards is the one before followed by exactly two entries: the USER
  message with content \<open>P\<close>, then the AI message with the provider's explanation.
\<close>

theorem post_message_appends_pair:
  assumes "is_valid e chat_id"
    and "get_ai_response (input prompt) chat_id = Inr r"
    and "map_of (docs w) (ObjectId e chat_id) = Some d"
  shows "\<exists>d'. map_of (docs (snd (post_message_by_chat_id e get_ai_response prompt chat_id w)))
                 (ObjectId e chat_id) = Some d'
      \<and> messages d' = messages d @ [\<lparr>content = input prompt, msg_type = USER\<rparr>,
                                      \<lparr>content = ai_explanation r, msg_type = AI\<rparr>]"
  using assms post_message_found [of e chat_id get_ai_response prompt r w d]
  by (simp add: update_conv)

theorem post_message_appends_pair_witness:
  "is_valid demo_env demo_id
   \<and> demo_ai (input \<lparr>input = ''build a button''\<rparr>) demo_id = Inr demo_response
   \<and> map_of (docs demo_world) (ObjectId demo_env demo_id) = Some demo_chat
   \<and> (\<exists>d'. map_of (docs (snd (post_message_by_chat_id demo_env demo_ai
                 \<lparr>input = ''build a button''\<rparr> demo_id demo_world)))
                 (ObjectId demo_env demo_id) = Some d'
      \<and> messages d' = [\<lparr>content = ''hi'', msg_type = USER\<rparr>, \<lparr>content = ''Hello'', msg_type = AI\<rparr>,
                        \<lparr>content = ''build a button'', msg_type = USER\<rparr>,
                        \<lparr>content = ''Here'', msg_type = AI\<rparr>])"
proof -
  have a: "demo_ai (input \<lparr>input = ''build a button''\<rparr>) demo_id = Inr demo_response"
    by (simp add: demo_ai_def)
  have c: "messages demo_chat = [\<lparr>content = ''hi'', msg_type = USER\<rparr>, \<lparr>content = ''Hello'', msg_type = AI\<rparr>]"
    "ai_explanation demo_response = ''Here''"
    by (simp_all add: demo_chat_def demo_response_def)
  from post_message_appends_pair [of demo_env demo_id demo_ai "\<lparr>input = ''build a button''\<rparr>"
      demo_response demo_world demo_chat]
  show ?thesis using demo_valid a demo_lookup c by simp
qed

text \<open>
  C5. For a malformed chat id, rename, get, delete and post-message each raise
  \<^verbatim>\<open>HTTPException(400, "Invalid chat ID")\<close> and return the state they were given: the
  collection is the same and the call log has no new entry, so neither the store nor the
  AI provider was reached. The exception differs from the 404 of a missing chat.
\<close>

theorem malformed_id_rejected_first:
  assumes "\<not> is_valid e chat_id"
  shows "rename_chat_by_id e chat_id nm w = (Inl (HTTPException 400 ''Invalid chat ID''), w)
      \<and> get_chat_by_id e chat_id w = (Inl (HTTPException 400 ''Invalid chat ID''), w)
      \<and> delete_chat_by_id e chat_id w = (Inl (HTTPException 400 ''Invalid chat ID''), w)
      \<and> post_message_by_chat_id e get_ai_response prompt chat_id w =
           (Inl (HTTPException 400 ''Invalid chat ID''), w)
      \<and> HTTPException 400 ''Invalid chat ID'' \<noteq> HTTPException 404 ''Chat not found''"
  using assms
  by (simp add: rename_chat_invalid get_chat_invalid delete_chat_invalid post_message_invalid)

theorem malformed_id_rejected_first_witness:
  "\<not> is_valid demo_env ''not-an-id''
   \<and> rename_chat_by_id demo_env ''not-an-id'' ''Landing page'' demo_world =
        (Inl (HTTPException 400 ''Invalid chat ID''), demo_world)
   \<and> get_chat_by_id demo_env ''not-an-id'' demo_world =
        (Inl (HTTPException 400 ''Invalid chat ID''), demo_world)
   \<and> delete_chat_by_id demo_env ''not-an-id'' demo_world =
        (Inl (HTTPException 400 ''Invalid chat ID''), demo_world)
   \<and> post_message_by_chat_id demo_env demo_ai \<lparr>input = ''build a button''\<rparr> ''not-an-id'' demo_world =
        (Inl (HTTPException 400 ''Invalid chat ID''), demo_world)
   \<and> calls demo_world = []"
proof -
  have n: "\<not> is_valid demo_env ''not-an-id''"
    by (simp add: demo_env_def)
  from malformed_id_rejected_first [OF n]
  show ?thesis using n by (simp add: demo_world_def)
qed

text \<open>
  C7. Whenever post-message succeeds, the returned name is the stored name after the call
  (the prompt's text if the stored name was \<^verbatim>\<open>New Chat\<close>, else the name stored before), the
  returned message is the AI message, and the returned code is the provider's three values
  as received, not what the store holds: a field whose value was blank is left as it was
  in the store and is returned blank.
\<close>

theorem post_message_returns_computed_snapshot:
  assumes "post_message_by_chat_id e get_ai_response prompt chat_id w = (Inr res, w')"
  shows "\<exists>r d d'. get_ai_response (input prompt) chat_id = Inr r
      \<and> map_of (docs w) (ObjectId e chat_id) = Some d
      \<and> map_of (docs w') (ObjectId e chat_id) = Some d'
      \<and> res_name res = (if name d = Some ''New Chat'' then Some (input prompt) else name d)
      \<and> res_name res = name d'
      \<and> res_message res = \<lparr>content = ai_explanation r, msg_type = AI\<rparr>
      \<and> res_code res = \<lparr>html = ai_html r, css = ai_css r, js = ai_js r\<rparr>
      \<and> (if strip (ai_html r) = [] then code_html d' = code_html d \<and> strip (html (res_code res)) = []
          else code_html d' = Some (html (res_code res)))
      \<and> (if strip (ai_css r) = [] then code_css d' = code_css d \<and> strip (css (res_code res)) = []
          else code_css d' = Some (css (res_code res)))
      \<and> (if strip (ai_js r) = [] then code_js d' = code_js d \<and> strip (js (res_code res)) = []
          else code_js d' = Some (js (res_code res)))"
proof -
  from post_message_success_inv [OF assms]
  obtain r d where v: "is_valid e chat_id" and r: "get_ai_response (input prompt) chat_id = Inr r"
    and d: "map_of (docs w) (ObjectId e chat_id) = Some d"
    by blast
  define d' where "d' = d\<lparr>messages := messages d @
                        [\<lparr>content = input prompt, msg_type = USER\<rparr>,
                         \<lparr>content = ai_explanation r, msg_type = AI\<rparr>],
                    code_html := (if truthy (strip (ai_html r)) then Some (ai_html r) else code_html d),
                    code_css := (if truthy (strip (ai_css r)) then Some (ai_css r) else code_css d),
                    code_js := (if truthy (strip (ai_js r)) then Some (ai_js r) else code_js d),
                    name := (if name d = Some ''New Chat'' then Some (input prompt) else name d)\<rparr>"
  from assms post_message_found [of e chat_id get_ai_response prompt r w d] v r d
  have res: "res = \<lparr>res_name = (if name d = Some ''New Chat'' then Some (input prompt) else name d),
           res_message = \<lparr>content = ai_explanation r, msg_type = AI\<rparr>,
           res_code = \<lparr>html = ai_html r, css = ai_css r, js = ai_js r\<rparr>\<rparr>"
    and w': "docs w' = AList.update (ObjectId e chat_id) d' (docs w)"
    by (auto simp: d'_def)
  have l: "map_of (docs w') (ObjectId e chat_id) = Some d'"
    by (simp add: w' update_conv)
  have f: "name d' = (if name d = Some ''New Chat'' then Some (input prompt) else name d)"
    "code_html d' = (if strip (ai_html r) = [] then code_html d else Some (ai_html r))"
    "code_css d' = (if strip (ai_css r) = [] then code_css d else Some (ai_css r))"
    "code_js d' = (if strip (ai_js r) = [] then code_js d else Some (ai_js r))"
    by (simp_all add: d'_def truthy_def)
  show ?thesis
    apply (rule exI [of _ r], rule exI [of _ d], rule exI [of _ d'])
    apply (simp add: r d l f res)
    done
qed

theorem post_message_returns_computed_snapshot_witness:
  "post_message_by_chat_id demo_env demo_ai \<lparr>input = ''build a button''\<rparr> demo_id demo_world =
     (Inr \<lparr>res_name = Some ''My site'',
           res_message = \<lparr>content = ''Here'', msg_type = AI\<rparr>,
           res_code = \<lparr>html = ''<button>'', css = [], js = ''  ''\<rparr>\<rparr>,
      snd (post_message_by_chat_id demo_env demo_ai \<lparr>input = ''build a button''\<rparr> demo_id demo_world))
   \<and> (\<exists>d'. map_of (docs (snd (post_message_by_chat_id demo_env demo_ai
                  \<lparr>input = ''build a button''\<rparr> demo_id demo_world))) demo_id = Some d'
          \<and> name d' = Some ''My site''
          \<and> code_html d' = Some ''<button>''
          \<and> code_css d' = Some ''p { color: red }''
          \<and> code_js d' = Some [])"
proof -
  have a: "demo_ai (input \<lparr>input = ''build a button''\<rparr>) demo_id = Inr demo_response"
    by (simp add: demo_ai_def)
  have run: "post_message_by_chat_id demo_env demo_ai \<lparr>input = ''build a button''\<rparr> demo_id demo_world =
     (Inr \<lparr>res_name = Some ''My site'',
           res_message = \<lparr>content = ''Here'', msg_type = AI\<rparr>,
           res_code = \<lparr>html = ''<button>'', css = [], js = ''  ''\<rparr>\<rparr>,
      snd (post_message_by_chat_id demo_env demo_ai \<lparr>input = ''build a button''\<rparr> demo_id demo_world))"
    using post_message_found [of demo_env demo_id demo_ai "\<lparr>input = ''build a button''\<rparr>"
        demo_response demo_world demo_chat] demo_valid a demo_lookup
    by (simp add: demo_chat_def demo_response_def)
  have s: "strip (ai_html demo_response) \<noteq> []" "strip (ai_css demo_response) = []"
    "strip (ai_js demo_response) = []"
    by (simp_all add: demo_response_def strip_def isspace_def)
  have o: "ObjectId demo_env demo_id = demo_id"
    by (simp add: demo_env_def)
  from post_message_returns_computed_snapshot [OF run]
  show ?thesis using run a demo_lookup s o
    by (auto simp: demo_chat_def demo_response_def)
qed

text \<open>
  C6. The claim is that post-message either applies its whole update or raises before
  anything is stored. Run among other requests it does neither when the chat is deleted
  between the lookup of line 75 and the update of line 102: \<^verbatim>\<open>upsert=True\<close> stores a new
  document that holds the two messages and the code fields of the update but no user id
  and no name, \<^verbatim>\<open>matched_count\<close> is 0, and line 109 raises the 404. Here the chat of the
  concrete collection is deleted by a call of \<^verbatim>\<open>delete_chat_by_id\<close> in between.
\<close>

theorem post_message_404_after_upsert:
  "post_message_by_chat_id_among demo_env racing_delete demo_ai \<lparr>input = ''build a button''\<rparr>
     demo_id demo_world =
   (Inl (HTTPException 404 ''Chat not found''),
    \<lparr>docs = [(demo_id,
               \<lparr>userId = None, name = None,
                messages = [\<lparr>content = ''build a button'', msg_type = USER\<rparr>,
                            \<lparr>content = ''Here'', msg_type = AI\<rparr>],
                code_html = Some ''<button>'', code_css = None, code_js = None\<rparr>)],
     calls = [GetAiResponse ''build a button'' demo_id, FindOne demo_id, DeleteOne demo_id,
              UpdateOne demo_id]\<rparr>)"
proof -
  have s: "truthy (strip ''<button>'')" "\<not> truthy (strip [])" "\<not> truthy (strip ''  '')"
    by (simp_all add: strip_def isspace_def truthy_def)
  have o: "ObjectId demo_env demo_id = demo_id"
    by (simp add: demo_env_def)
  have del: "\<And>cs. racing_delete \<lparr>docs = [(demo_id, demo_chat)], calls = cs\<rparr> =
      \<lparr>docs = [], calls = cs @ [DeleteOne demo_id]\<rparr>"
    using demo_valid
    by (simp add: racing_delete_def delete_chat_by_id_def delete_one_def logged_def o)
  have u: "apply_update
      (build_update \<lparr>content = ''build a button'', msg_type = USER\<rparr>
         \<lparr>content = ''Here'', msg_type = AI\<rparr>
         \<lparr>html = ''<button>'', css = [], js = ''  ''\<rparr> demo_chat \<lparr>input = ''build a button''\<rparr>)
      empty_doc =
      \<lparr>userId = None, name = None,
       messages = [\<lparr>content = ''build a button'', msg_type = USER\<rparr>,
                   \<lparr>content = ''Here'', msg_type = AI\<rparr>],
       code_html = Some ''<button>'', code_css = None, code_js = None\<rparr>"
    using s by (simp add: build_update_def apply_update_def empty_doc_def demo_chat_def Let_def)
  show ?thesis
    using demo_valid
    by (simp add: post_message_by_chat_id_among_def Let_def find_one_def update_one_def logged_def
        demo_ai_def demo_response_def demo_world_def o del u)
qed

text \<open>
  C9. For every user id, create-chat returns (it has no raising branch) a summary with the
  identifier the store generated, the given user id, the given name or \<^verbatim>\<open>New Chat\<close> when
  the name is omitted, no messages and empty code; the document is appended to the
  collection under that identifier.
\<close>

theorem create_chat_result:
  "fst (create_chat_by_user_id e user_id name_arg w) =
     Inr \<lparr>out_id = gen_id e (docs w),
          out_userId = Some user_id,
          out_name = Some (case name_arg of None \<Rightarrow> ''New Chat'' | Some n \<Rightarrow> n),
          out_messages = [],
          out_code_html = Some [], out_code_css = Some [], out_code_js = Some []\<rparr>
   \<and> docs (snd (create_chat_by_user_id e user_id name_arg w)) =
       docs w @
         [(gen_id e (docs w),
           \<lparr>userId = Some user_id,
            name = Some (case name_arg of None \<Rightarrow> ''New Chat'' | Some n \<Rightarrow> n),
            messages = [],
            code_html = Some [], code_css = Some [], code_js = Some []\<rparr>)]"
  by (simp add: create_chat_eq)

theorem create_chat_result_witness:
  "fst (create_chat_by_user_id demo_env ''u1'' None empty_world) =
     Inr \<lparr>out_id = demo_id, out_userId = Some ''u1'', out_name = Some ''New Chat'',
          out_messages = [],
          out_code_html = Some [], out_code_css = Some [], out_code_js = Some []\<rparr>
   \<and> fst (create_chat_by_user_id demo_env ''u2'' (Some ''Shop'') demo_world) =
     Inr \<lparr>out_id = ''000000000000000000000001'', out_userId = Some ''u2'', out_name = Some ''Shop'',
          out_messages = [],
          out_code_html = Some [], out_code_css = Some [], out_code_js = Some []\<rparr>"
  using create_chat_result [of demo_env "''u1''" None empty_world]
    create_chat_result [of demo_env "''u2''" "Some ''Shop''" demo_world]
  by (simp add: demo_gen_id_empty demo_gen_id_one)

text \<open>
  C8. The claim is that list-chats raises the 404 of line 17 for a user without chats.
  On the collection that holds one chat of user \<^verbatim>\<open>u1\<close>, listing the chats of \<^verbatim>\<open>u2\<close>
  returns the empty list.
\<close>

theorem get_chats_no_match_is_empty_list:
  "get_chats_by_user_id ''u2'' demo_world =
     (Inr [], \<lparr>docs = [(demo_id, demo_chat)], calls = [Find ''u2'']\<rparr>)"
  by (simp add: get_chats_by_user_id_def find_coll_def logged_def all_chats_def demo_world_def
      demo_chat_def)

text \<open>
  C10. The automatic rename looks only at the stored name. For an existing chat with any
  message history, renaming it to \<^verbatim>\<open>New Chat\<close> succeeds, and the next posted prompt then
  sets the stored name to that prompt's text; in general the stored name after a post is
  the prompt's text if the stored name was \<^verbatim>\<open>New Chat\<close> and the stored name otherwise.
\<close>

theorem rename_to_sentinel_rearms_auto_rename:
  assumes "is_valid e chat_id"
    and "map_of (docs w) (ObjectId e chat_id) = Some d"
    and "get_ai_response (input prompt) chat_id = Inr r"
  shows "fst (rename_chat_by_id e chat_id ''New Chat'' w) = Inr ''Chat renamed successfully.''
      \<and> (\<exists>d'. map_of (docs (snd (post_message_by_chat_id e get_ai_response prompt chat_id
                     (snd (rename_chat_by_id e chat_id ''New Chat'' w))))) (ObjectId e chat_id) = Some d'
            \<and> name d' = Some (input prompt)
            \<and> messages d' = messages d @ [\<lparr>content = input prompt, msg_type = USER\<rparr>,
                                            \<lparr>content = ai_explanation r, msg_type = AI\<rparr>])
      \<and> (\<exists>d'. map_of (docs (snd (post_message_by_chat_id e get_ai_response prompt chat_id w)))
                     (ObjectId e chat_id) = Some d'
            \<and> name d' = (if name d = Some ''New Chat'' then Some (input prompt) else name d))"
proof -
  let ?k = "ObjectId e chat_id"
  let ?w1 = "w\<lparr>docs := AList.update ?k (d\<lparr>name := Some ''New Chat''\<rparr>) (docs w),
               calls := calls w @ [UpdateOne ?k]\<rparr>"
  have ren: "rename_chat_by_id e chat_id ''New Chat'' w = (Inr ''Chat renamed successfully.'', ?w1)"
    using assms by (simp add: rename_chat_found)
  have l1: "map_of (docs ?w1) ?k = Some (d\<lparr>name := Some ''New Chat''\<rparr>)"
    by (simp add: update_conv)
  have a: "\<exists>d'. map_of (docs (snd (post_message_by_chat_id e get_ai_response prompt chat_id ?w1))) ?k = Some d'
            \<and> name d' = Some (input prompt)
            \<and> messages d' = messages d @ [\<lparr>content = input prompt, msg_type = USER\<rparr>,
                                            \<lparr>content = ai_explanation r, msg_type = AI\<rparr>]"
    using assms(1,3) l1
      post_message_found [of e chat_id get_ai_response prompt r ?w1 "d\<lparr>name := Some ''New Chat''\<rparr>"]
    by (simp add: update_conv)
  have b: "\<exists>d'. map_of (docs (snd (post_message_by_chat_id e get_ai_response prompt chat_id w))) ?k = Some d'
            \<and> name d' = (if name d = Some ''New Chat'' then Some (input prompt) else name d)"
    using assms post_message_found [of e chat_id get_ai_response prompt r w d]
    by (simp add: update_conv)
  from a b show ?thesis by (simp add: ren)
qed

theorem rename_to_sentinel_rearms_auto_rename_witness:
  "is_valid demo_env demo_id
   \<and> map_of (docs demo_world) (ObjectId demo_env demo_id) = Some demo_chat
   \<and> messages demo_chat \<noteq> [] \<and> name demo_chat = Some ''My site''
   \<and> (\<exists>d'. map_of (docs (snd (post_message_by_chat_id demo_env demo_ai \<lparr>input = ''build a button''\<rparr> demo_id
                     (snd (rename_chat_by_id demo_env demo_id ''New Chat'' demo_world))))) demo_id = Some d'
            \<and> name d' = Some ''build a button'')
   \<and> (\<exists>d'. map_of (docs (snd (post_message_by_chat_id demo_env demo_ai \<lparr>input = ''build a button''\<rparr> demo_id
                     demo_world))) demo_id = Some d'
            \<and> name d' = Some ''My site'')"
proof -
  have a: "demo_ai (input \<lparr>input = ''build a button''\<rparr>) demo_id = Inr demo_response"
    by (simp add: demo_ai_def)
  have o: "ObjectId demo_env demo_id = demo_id"
    by (simp add: demo_env_def)
  have c: "messages demo_chat \<noteq> []" "name demo_chat = Some ''My site''"
    by (simp_all add: demo_chat_def)
  from rename_to_sentinel_rearms_auto_rename [of demo_env demo_id demo_world demo_chat demo_ai
      "\<lparr>input = ''build a button''\<rparr>" demo_response]
  show ?thesis using demo_valid demo_lookup a o c by auto
qed

text \<open>
  C4, as stated, fails on two inputs that match no record: a malformed id, for which
  rename raises the 400 of line 29, and a well-formed id posted to while the AI provider
  raises, for which post-message raises the provider's exception (line 70 runs before the
  lookup of line 75).
\<close>

theorem missing_chat_not_always_404:
  "map_of (docs demo_world) (ObjectId demo_env ''not-an-id'') = None
   \<and> fst (rename_chat_by_id demo_env ''not-an-id'' ''Shop'' demo_world) =
        Inl (HTTPException 400 ''Invalid chat ID'')
   \<and> map_of (docs demo_world) (ObjectId demo_env other_id) = None
   \<and> fst (post_message_by_chat_id demo_env failing_ai \<lparr>input = ''build a button''\<rparr> other_id demo_world) =
        Inl (ProviderError ''quota exceeded'')"
proof -
  have n: "\<not> is_valid demo_env ''not-an-id''"
    by (simp add: demo_env_def)
  have m: "map_of (docs demo_world) (ObjectId demo_env ''not-an-id'') = None"
    by (simp add: demo_env_def demo_world_def demo_id_def)
  have f: "failing_ai (input \<lparr>input = ''build a button''\<rparr>) other_id = Inl (ProviderError ''quota exceeded'')"
    by (simp add: failing_ai_def)
  show ?thesis
    using n m f other_valid other_missing
    by (simp add: rename_chat_invalid post_message_provider_fails)
qed

text \<open>
  C4, amended. For a chat id that matches no record, none of rename, get, delete and
  post-message returns a value, and none changes the collection. If the id is well-formed,
  rename, get and delete raise \<^verbatim>\<open>HTTPException(404, "Chat not found")\<close>, and so does
  post-message when the AI provider returns; when the provider raises, post-message raises
  the provider's exception.
\<close>

theorem missing_chat_never_succeeds:
  assumes "map_of (docs w) (ObjectId e chat_id) = None"
  shows "(\<exists>err. fst (rename_chat_by_id e chat_id nm w) = Inl err)
      \<and> docs (snd (rename_chat_by_id e chat_id nm w)) = docs w
      \<and> (\<exists>err. fst (get_chat_by_id e chat_id w) = Inl err)
      \<and> docs (snd (get_chat_by_id e chat_id w)) = docs w
      \<and> (\<exists>err. fst (delete_chat_by_id e chat_id w) = Inl err)
      \<and> docs (snd (delete_chat_by_id e chat_id w)) = docs w
      \<and> (\<exists>err. fst (post_message_by_chat_id e get_ai_response prompt chat_id w) = Inl err)
      \<and> docs (snd (post_message_by_chat_id e get_ai_response prompt chat_id w)) = docs w
      \<and> (is_valid e chat_id \<longrightarrow>
            fst (rename_chat_by_id e chat_id nm w) = Inl (HTTPException 404 ''Chat not found'')
          \<and> fst (get_chat_by_id e chat_id w) = Inl (HTTPException 404 ''Chat not found'')
          \<and> fst (delete_chat_by_id e chat_id w) = Inl (HTTPException 404 ''Chat not found'')
          \<and> fst (post_message_by_chat_id e get_ai_response prompt chat_id w) =
              (case get_ai_response (input prompt) chat_id of
                 Inl exn \<Rightarrow> Inl exn
               | Inr response \<Rightarrow> Inl (HTTPException 404 ''Chat not found'')))"
proof (cases "is_valid e chat_id")
  case False
  then show ?thesis
    by (simp add: rename_chat_invalid get_chat_invalid delete_chat_invalid post_message_invalid)
next
  case v: True
  have p: "fst (post_message_by_chat_id e get_ai_response prompt chat_id w) =
              (case get_ai_response (input prompt) chat_id of
                 Inl exn \<Rightarrow> Inl exn
               | Inr response \<Rightarrow> Inl (HTTPException 404 ''Chat not found''))
        \<and> docs (snd (post_message_by_chat_id e get_ai_response prompt chat_id w)) = docs w"
  proof (cases "get_ai_response (input prompt) chat_id")
    case (Inl x)
    with v show ?thesis by (simp add: post_message_provider_fails logged_def)
  next
    case (Inr r)
    with v assms show ?thesis by (simp add: post_message_not_found)
  qed
  have q: "\<exists>err. fst (post_message_by_chat_id e get_ai_response prompt chat_id w) = Inl err"
    using p by (cases "get_ai_response (input prompt) chat_id") simp_all
  from v assms p q show ?thesis
    by (simp add: rename_chat_not_found get_chat_not_found delete_chat_not_found)
qed

theorem missing_chat_never_succeeds_witness:
  "map_of (docs demo_world) (ObjectId demo_env other_id) = None
   \<and> is_valid demo_env other_id
   \<and> fst (rename_chat_by_id demo_env other_id ''Shop'' demo_world) = Inl (HTTPException 404 ''Chat not found'')
   \<and> fst (get_chat_by_id demo_env other_id demo_world) = Inl (HTTPException 404 ''Chat not found'')
   \<and> fst (delete_chat_by_id demo_env other_id demo_world) = Inl (HTTPException 404 ''Chat not found'')
   \<and> fst (post_message_by_chat_id demo_env demo_ai \<lparr>input = ''build a button''\<rparr> other_id demo_world) =
        Inl (HTTPException 404 ''Chat not found'')
   \<and> docs (snd (post_message_by_chat_id demo_env demo_ai \<lparr>input = ''build a button''\<rparr> other_id demo_world)) =
        docs demo_world"
  using missing_chat_never_succeeds [of demo_world demo_env other_id "''Shop''" demo_ai
      "\<lparr>input = ''build a button''\<rparr>"] other_valid other_missing
  by (simp add: demo_ai_def)

text \<open>
  C2, as stated, fails when the first prompt's text is itself \<^verbatim>\<open>New Chat\<close>. A chat is
  created without a name on the empty collection; after the first prompt \<^verbatim>\<open>New Chat\<close> the
  stored name is \<^verbatim>\<open>New Chat\<close>, and the second prompt \<^verbatim>\<open>hello\<close> renames the chat.
\<close>

theorem second_prompt_renames_again:
  "map_of (docs run_created) demo_id =
     Some \<lparr>userId = Some ''u1'', name = Some ''New Chat'', messages = [],
           code_html = Some [], code_css = Some [], code_js = Some []\<rparr>
   \<and> map_of (docs run_first_post) demo_id =
     Some \<lparr>userId = Some ''u1'', name = Some ''New Chat'',
           messages = [\<lparr>content = ''New Chat'', msg_type = USER\<rparr>, \<lparr>content = ''Here'', msg_type = AI\<rparr>],
           code_html = Some ''<button>'', code_css = Some [], code_js = Some []\<rparr>
   \<and> map_of (docs run_second_post) demo_id =
     Some \<lparr>userId = Some ''u1'', name = Some ''hello'',
           messages = [\<lparr>content = ''New Chat'', msg_type = USER\<rparr>, \<lparr>content = ''Here'', msg_type = AI\<rparr>,
                       \<lparr>content = ''hello'', msg_type = USER\<rparr>, \<lparr>content = ''Here'', msg_type = AI\<rparr>],
           code_html = Some ''<button>'', code_css = Some [], code_js = Some []\<rparr>"
proof -
  have s: "truthy (strip (ai_html demo_response))" "\<not> truthy (strip (ai_css demo_response))"
    "\<not> truthy (strip (ai_js demo_response))"
    by (simp_all add: demo_response_def strip_def isspace_def truthy_def)
  have o: "ObjectId demo_env demo_id = demo_id"
    by (simp add: demo_env_def)
  have a: "\<And>t. demo_ai t demo_id = Inr demo_response"
    by (simp add: demo_ai_def)
  have l0: "map_of (docs run_created) demo_id =
     Some \<lparr>userId = Some ''u1'', name = Some ''New Chat'', messages = [],
           code_html = Some [], code_css = Some [], code_js = Some []\<rparr>"
    by (simp add: run_created_eq)
  have l1: "map_of (docs run_first_post) demo_id =
     Some \<lparr>userId = Some ''u1'', name = Some ''New Chat'',
           messages = [\<lparr>content = ''New Chat'', msg_type = USER\<rparr>, \<lparr>content = ''Here'', msg_type = AI\<rparr>],
           code_html = Some ''<button>'', code_css = Some [], code_js = Some []\<rparr>"
    unfolding run_first_post_def
    using post_message_found [of demo_env demo_id demo_ai "\<lparr>input = ''New Chat''\<rparr>" demo_response
        run_created, OF demo_valid a] l0 s o
    by (simp add: update_conv demo_response_def)
  have l2: "map_of (docs run_second_post) demo_id =
     Some \<lparr>userId = Some ''u1'', name = Some ''hello'',
           messages = [\<lparr>content = ''New Chat'', msg_type = USER\<rparr>, \<lparr>content = ''Here'', msg_type = AI\<rparr>,
                       \<lparr>content = ''hello'', msg_type = USER\<rparr>, \<lparr>content = ''Here'', msg_type = AI\<rparr>],
           code_html = Some ''<button>'', code_css = Some [], code_js = Some []\<rparr>"
    unfolding run_second_post_def
    using post_message_found [of demo_env demo_id demo_ai "\<lparr>input = ''hello''\<rparr>" demo_response
        run_first_post, OF demo_valid a] l1 s o
    by (simp add: update_conv demo_response_def)
  from l0 l1 l2 show ?thesis by simp
qed

text \<open>
  C2, amended. A chat created without a name is stored under the name \<^verbatim>\<open>New Chat\<close>; the
  first posted prompt replaces the name by the prompt's exact text; a second posted prompt
  leaves that name as it is unless the first prompt's text was \<^verbatim>\<open>New Chat\<close>, in which
  case the second prompt's text becomes the name. The store is taken to generate an
  identifier that no stored document has, and the provider to answer both prompts.
\<close>

theorem auto_rename_after_create:
  assumes "gen_id e (docs w) \<notin> fst ` set (docs w)"
    and "is_valid e chat_id"
    and "ObjectId e chat_id = gen_id e (docs w)"
    and "ai1 (input p1) chat_id = Inr r1"
    and "ai2 (input p2) chat_id = Inr r2"
  shows "\<exists>d0 d1 d2.
      map_of (docs (snd (create_chat_by_user_id e user_id None w))) (ObjectId e chat_id) = Some d0
    \<and> name d0 = Some ''New Chat''
    \<and> map_of (docs (snd (post_message_by_chat_id e ai1 p1 chat_id
          (snd (create_chat_by_user_id e user_id None w))))) (ObjectId e chat_id) = Some d1
    \<and> name d1 = Some (input p1)
    \<and> map_of (docs (snd (post_message_by_chat_id e ai2 p2 chat_id
          (snd (post_message_by_chat_id e ai1 p1 chat_id
            (snd (create_chat_by_user_id e user_id None w))))))) (ObjectId e chat_id) = Some d2
    \<and> name d2 = (if input p1 = ''New Chat'' then Some (input p2) else Some (input p1))"
proof -
  let ?k = "ObjectId e chat_id"
  let ?w0 = "snd (create_chat_by_user_id e user_id None w)"
  let ?w1 = "snd (post_message_by_chat_id e ai1 p1 chat_id ?w0)"
  let ?w2 = "snd (post_message_by_chat_id e ai2 p2 chat_id ?w1)"
  define d0 where "d0 = \<lparr>userId = Some user_id, name = Some ''New Chat'', messages = [],
       code_html = Some [], code_css = Some [], code_js = Some []\<rparr>"
  have "docs ?w0 = docs w @ [(gen_id e (docs w), d0)]"
    by (simp add: create_chat_eq d0_def)
  with assms(1,3) have d0: "map_of (docs ?w0) ?k = Some d0"
    using map_of_snoc_fresh [of "gen_id e (docs w)" "docs w" d0] by simp
  have n0: "name d0 = Some ''New Chat''"
    by (simp add: d0_def)
  obtain d1 where d1: "map_of (docs ?w1) ?k = Some d1" and n1: "name d1 = Some (input p1)"
    using assms(2,4) d0 n0 post_message_found [of e chat_id ai1 p1 r1 ?w0 d0]
    by (simp add: update_conv)
  obtain d2 where d2: "map_of (docs ?w2) ?k = Some d2"
    and n2: "name d2 = (if name d1 = Some ''New Chat'' then Some (input p2) else name d1)"
    using assms(2,5) d1 post_message_found [of e chat_id ai2 p2 r2 ?w1 d1]
    by (simp add: update_conv)
  from n1 n2 have "name d2 = (if input p1 = ''New Chat'' then Some (input p2) else Some (input p1))"
    by simp
  with d0 n0 d1 n1 d2 show ?thesis by blast
qed

theorem auto_rename_after_create_witness:
  "gen_id demo_env (docs empty_world) \<notin> fst ` set (docs empty_world)
   \<and> is_valid demo_env demo_id
   \<and> ObjectId demo_env demo_id = gen_id demo_env (docs empty_world)
   \<and> (\<exists>d0 d1 d2.
      map_of (docs (snd (create_chat_by_user_id demo_env ''u1'' None empty_world))) demo_id = Some d0
    \<and> name d0 = Some ''New Chat''
    \<and> map_of (docs (snd (post_message_by_chat_id demo_env demo_ai \<lparr>input = ''build a button''\<rparr> demo_id
          (snd (create_chat_by_user_id demo_env ''u1'' None empty_world))))) demo_id = Some d1
    \<and> name d1 = Some ''build a button''
    \<and> map_of (docs (snd (post_message_by_chat_id demo_env demo_ai \<lparr>input = ''make it red''\<rparr> demo_id
          (snd (post_message_by_chat_id demo_env demo_ai \<lparr>input = ''build a button''\<rparr> demo_id
            (snd (create_chat_by_user_id demo_env ''u1'' None empty_world))))))) demo_id = Some d2
    \<and> name d2 = Some ''build a button'')"
proof -
  have f: "gen_id demo_env (docs empty_world) \<notin> fst ` set (docs empty_world)"
    by (simp add: empty_world_def)
  have o: "ObjectId demo_env demo_id = demo_id"
    by (simp add: demo_env_def)
  have a: "demo_ai (input \<lparr>input = ''build a button''\<rparr>) demo_id = Inr demo_response"
    "demo_ai (input \<lparr>input = ''make it red''\<rparr>) demo_id = Inr demo_response"
    by (simp_all add: demo_ai_def)
  from auto_rename_after_create [of demo_env empty_world demo_id demo_ai
      "\<lparr>input = ''build a button''\<rparr>" demo_response demo_ai "\<lparr>input = ''make it red''\<rparr>"
      demo_response "''u1''"]
  show ?thesis using f demo_valid o demo_gen_id_empty a by simp
qed

end
